theory Spec2Isabelle
  imports Main
begin

section \<open>The LS-8 emulator: one CPU cycle of \<^verbatim>\<open>ls8/cpu.js\<close>\<close>

text \<open>
  The class \<^verbatim>\<open>CPU\<close> of \<^verbatim>\<open>ls8/cpu.js\<close> is embedded by explicit state passing: every
  method and every handler closure of \<^verbatim>\<open>tick\<close> becomes a function from the machine state
  to the machine state, under the name it has in the source.

  Values. Registers and memory cells hold JavaScript numbers. The emulator only ever
  produces them from bytes by \<^verbatim>\<open>+\<close>, \<^verbatim>\<open>*\<close>, \<^verbatim>\<open>++\<close> and \<^verbatim>\<open>--\<close>, and none of these is
  masked, so a value is modelled as an unbounded \<^typ>\<open>int\<close> (exact as long as the numbers
  stay below \<open>2 ^ 53\<close> in magnitude, where JavaScript arithmetic on integers is exact).
  The model has no \<^verbatim>\<open>undefined\<close>: a register slot that was never assigned (an index
  outside \<open>0..7\<close>) and a memory cell outside the 256 addresses hold some number here.
  Statements about the contents of a register named by an operand are therefore made
  for the eight registers the constructor creates.
\<close>

subsection \<open>Memory\<close>

text \<open>
  The Memory collaborator behind \<^verbatim>\<open>this.ram\<close> is not part of the sources. The spec gives
  it the interface \<^verbatim>\<open>read(address) -> byte\<close> and \<^verbatim>\<open>write(address, byte)\<close> over a flat
  store of 256 cells, and says that no bounds or collision check is made on addresses and
  that values wider than 8 bits are not masked. It is modelled as a total store from
  addresses to values.
\<close>

type_synonym memory = "int \<Rightarrow> int"

text \<open>
  Modelled from the spec: \<^verbatim>\<open>read(address)\<close> of the Memory collaborator, which returns
  the cell at the address.
\<close>

definition ram_read :: "memory \<Rightarrow> int \<Rightarrow> int" where
  "ram_read m address = m address"

text \<open>
  Modelled from the spec: \<^verbatim>\<open>write(address, value)\<close> of the Memory collaborator, which
  replaces the cell at the address and no other.
\<close>

definition ram_write :: "memory \<Rightarrow> int \<Rightarrow> int \<Rightarrow> memory" where
  "ram_write m address v = m(address := v)"

subsection \<open>Machine state\<close>

text \<open>
  What \<^verbatim>\<open>console.log\<close> receives is recorded as a list of events that carry the logged
  numbers; the rendering to text is left to the host.
\<close>

datatype event =
    Log_ram int int       \<comment> \<open>\<^verbatim>\<open>console.log(`ram index ${i}: `, this.ram.read(i))\<close>\<close>
  | Log_rule              \<comment> \<open>\<^verbatim>\<open>console.log('----------')\<close>\<close>
  | Log_PC int            \<comment> \<open>\<^verbatim>\<open>console.log('PC: ', this.reg.PC)\<close>\<close>
  | Log_register int int  \<comment> \<open>\<^verbatim>\<open>console.log(`register ${i}: `, this.reg[i])\<close>\<close>
  | Log_end_PC int        \<comment> \<open>\<^verbatim>\<open>console.log('end of int general, PC: ', this.reg.PC)\<close>\<close>
  | Log_char int          \<comment> \<open>\<^verbatim>\<open>console.log(String.fromCharCode(v))\<close>, with the code unit\<close>
  | Log_number int        \<comment> \<open>\<^verbatim>\<open>console.log(v)\<close>\<close>
  | Log_invalid int       \<comment> \<open>\<^verbatim>\<open>`${instruction.toString(2)} is not a valid instruction; ...`\<close>\<close>

text \<open>
  \<open>reg\<close> is the array \<^verbatim>\<open>this.reg\<close> (indexed by whatever number an operand holds; an
  assignment outside \<open>0..7\<close> extends the array), \<open>PC\<close> and \<open>FL\<close> are its two named
  properties. \<open>clock\<close> tells whether the interval timer \<^verbatim>\<open>this.clock\<close> is scheduled.
\<close>

record cpu =
  ram :: memory
  reg :: "int \<Rightarrow> int"
  PC :: int
  FL :: int
  clock :: bool
  console :: "event list"

definition constructor :: "memory \<Rightarrow> cpu" where
  "constructor m =
     \<lparr>ram = m, reg = (\<lambda>_. 0)(7 := 244, 6 := 0), PC = 0, FL = 0,
      clock = False, console = []\<rparr>"

definition poke :: "int \<Rightarrow> int \<Rightarrow> cpu \<Rightarrow> cpu" where
  "poke address v s = s\<lparr>ram := ram_write (ram s) address v\<rparr>"

definition stopClock :: "cpu \<Rightarrow> cpu" where
  "stopClock s = s\<lparr>clock := False\<rparr>"

subsection \<open>Opcodes and special registers\<close>

definition ADD :: int where "ADD = 168"   \<comment> \<open>\<^verbatim>\<open>0b10101000\<close>\<close>
definition CALL :: int where "CALL = 72"  \<comment> \<open>\<^verbatim>\<open>0b01001000\<close>\<close>
definition CMP :: int where "CMP = 160"   \<comment> \<open>\<^verbatim>\<open>0b10100000\<close>\<close>
definition HLT :: int where "HLT = 1"     \<comment> \<open>\<^verbatim>\<open>0b00000001\<close>\<close>
definition JEQ :: int where "JEQ = 81"    \<comment> \<open>\<^verbatim>\<open>0b01010001\<close>\<close>
definition JGT :: int where "JGT = 84"    \<comment> \<open>\<^verbatim>\<open>0b01010100\<close>\<close>
definition JLT :: int where "JLT = 83"    \<comment> \<open>\<^verbatim>\<open>0b01010011\<close>\<close>
definition JMP :: int where "JMP = 80"    \<comment> \<open>\<^verbatim>\<open>0b01010000\<close>\<close>
definition JNE :: int where "JNE = 82"    \<comment> \<open>\<^verbatim>\<open>0b01010010\<close>\<close>
definition LDI :: int where "LDI = 153"   \<comment> \<open>\<^verbatim>\<open>0b10011001\<close>\<close>
definition MUL :: int where "MUL = 170"   \<comment> \<open>\<^verbatim>\<open>0b10101010\<close>\<close>
definition POP :: int where "POP = 76"    \<comment> \<open>\<^verbatim>\<open>0b01001100\<close>\<close>
definition PRA :: int where "PRA = 66"    \<comment> \<open>\<^verbatim>\<open>0b01000010\<close>\<close>
definition PRN :: int where "PRN = 67"    \<comment> \<open>\<^verbatim>\<open>0b01000011\<close>\<close>
definition PUSH :: int where "PUSH = 77"  \<comment> \<open>\<^verbatim>\<open>0b01001101\<close>\<close>
definition RET :: int where "RET = 9"     \<comment> \<open>\<^verbatim>\<open>0b00001001\<close>\<close>
definition ST :: int where "ST = 154"     \<comment> \<open>\<^verbatim>\<open>0b10011010\<close>\<close>

definition SP :: int where "SP = 7"  \<comment> \<open>Stack Pointer\<close>
definition IS :: int where "IS = 6"  \<comment> \<open>Interrupt Status\<close>

subsection \<open>ALU\<close>

text \<open>
  \<^verbatim>\<open>alu(op, regA, regB)\<close> switches on the operation's name and has cases for
  \<^verbatim>\<open>'MUL'\<close> and \<^verbatim>\<open>'ADD'\<close> only; for any other name it returns nothing (\<open>None\<close>).
\<close>

definition alu :: "string \<Rightarrow> int \<Rightarrow> int \<Rightarrow> cpu \<Rightarrow> int option" where
  "alu op regA regB s =
     (if op = ''MUL'' then Some (reg s regA * reg s regB)
      else if op = ''ADD'' then Some (reg s regA + reg s regB)
      else None)"

subsection \<open>Instruction handlers\<close>

text \<open>
  \<^verbatim>\<open>this.ram.write(--this.reg[SP], value)\<close>: the caller has evaluated \<open>value\<close> already;
  SP is decremented, then the value is written at the new SP.
\<close>

definition handle_PUSHval :: "int \<Rightarrow> cpu \<Rightarrow> cpu" where
  "handle_PUSHval v s =
     (let s1 = s\<lparr>reg := (reg s)(SP := reg s SP - 1)\<rparr>
      in s1\<lparr>ram := ram_write (ram s1) (reg s1 SP) v\<rparr>)"

text \<open>
  \<^verbatim>\<open>this.ram.write(--this.reg[SP], this.reg[register])\<close>: the arguments are evaluated
  from left to right, so the register is read after SP has been decremented.
\<close>

definition handle_PUSH :: "int \<Rightarrow> cpu \<Rightarrow> cpu" where
  "handle_PUSH register s =
     (let s1 = s\<lparr>reg := (reg s)(SP := reg s SP - 1)\<rparr>
      in s1\<lparr>ram := ram_write (ram s1) (reg s1 SP) (reg s1 register)\<rparr>)"

text \<open>\<^verbatim>\<open>return this.ram.read(this.reg[SP]++)\<close>: the value read and the new state.\<close>

definition handle_POPval :: "cpu \<Rightarrow> int \<times> cpu" where
  "handle_POPval s =
     (ram_read (ram s) (reg s SP), s\<lparr>reg := (reg s)(SP := reg s SP + 1)\<rparr>)"

text \<open>\<^verbatim>\<open>this.reg[register] = handle_POPval()\<close>: the assignment follows the increment.\<close>

definition handle_POP :: "int \<Rightarrow> cpu \<Rightarrow> cpu" where
  "handle_POP register s =
     (case handle_POPval s of (v, s1) \<Rightarrow> s1\<lparr>reg := (reg s1)(register := v)\<rparr>)"

definition handle_ADD :: "int \<Rightarrow> int \<Rightarrow> cpu \<Rightarrow> cpu" where
  "handle_ADD registerA registerB s =
     (case alu ''ADD'' registerA registerB s of
        Some v \<Rightarrow> s\<lparr>reg := (reg s)(registerA := v)\<rparr>
      | None \<Rightarrow> s)"

definition handle_MUL :: "int \<Rightarrow> int \<Rightarrow> cpu \<Rightarrow> cpu" where
  "handle_MUL registerA registerB s =
     (case alu ''MUL'' registerA registerB s of
        Some v \<Rightarrow> s\<lparr>reg := (reg s)(registerA := v)\<rparr>
      | None \<Rightarrow> s)"

definition handle_CALL :: "int \<Rightarrow> cpu \<Rightarrow> cpu" where
  "handle_CALL register s =
     (let s1 = handle_PUSHval (PC s + 2) s in s1\<lparr>PC := reg s1 register\<rparr>)"

text \<open>
  \<^verbatim>\<open>switch (true)\<close> with three cases, taken in order; when none matches, \<open>FL\<close> is left
  as it is.
\<close>

definition handle_CMP :: "int \<Rightarrow> int \<Rightarrow> cpu \<Rightarrow> cpu" where
  "handle_CMP registerA registerB s =
     (if reg s registerA = reg s registerB then s\<lparr>FL := 1\<rparr>
      else if reg s registerA > reg s registerB then s\<lparr>FL := 2\<rparr>
      else if reg s registerA < reg s registerB then s\<lparr>FL := 4\<rparr>
      else s)"

definition handle_HLT :: "cpu \<Rightarrow> cpu" where
  "handle_HLT s = stopClock s"

definition handle_JMP :: "int \<Rightarrow> cpu \<Rightarrow> cpu" where
  "handle_JMP register s = s\<lparr>PC := reg s register\<rparr>"

definition handle_JEQ :: "int \<Rightarrow> cpu \<Rightarrow> cpu" where
  "handle_JEQ register s =
     (if FL s = 1 then handle_JMP register s else s\<lparr>PC := PC s + 2\<rparr>)"

definition handle_JGT :: "int \<Rightarrow> cpu \<Rightarrow> cpu" where
  "handle_JGT register s =
     (if FL s = 2 then handle_JMP register s else s\<lparr>PC := PC s + 2\<rparr>)"

definition handle_JLT :: "int \<Rightarrow> cpu \<Rightarrow> cpu" where
  "handle_JLT register s =
     (if FL s = 4 then handle_JMP register s else s\<lparr>PC := PC s + 2\<rparr>)"

definition handle_JNE :: "int \<Rightarrow> cpu \<Rightarrow> cpu" where
  "handle_JNE register s =
     (if FL s \<noteq> 1 then handle_JMP register s else s\<lparr>PC := PC s + 2\<rparr>)"

definition handle_LDI :: "int \<Rightarrow> int \<Rightarrow> cpu \<Rightarrow> cpu" where
  "handle_LDI register v s = s\<lparr>reg := (reg s)(register := v)\<rparr>"

text \<open>\<^verbatim>\<open>String.fromCharCode\<close> takes its argument modulo \<open>2 ^ 16\<close>.\<close>

definition handle_PRA :: "int \<Rightarrow> cpu \<Rightarrow> cpu" where
  "handle_PRA register s =
     s\<lparr>console := console s @ [Log_char (reg s register mod 65536)]\<rparr>"

definition handle_PRN :: "int \<Rightarrow> cpu \<Rightarrow> cpu" where
  "handle_PRN register s = s\<lparr>console := console s @ [Log_number (reg s register)]\<rparr>"

definition handle_RET :: "cpu \<Rightarrow> cpu" where
  "handle_RET s = (case handle_POPval s of (v, s1) \<Rightarrow> s1\<lparr>PC := v\<rparr>)"

definition handle_ST :: "int \<Rightarrow> int \<Rightarrow> cpu \<Rightarrow> cpu" where
  "handle_ST registerA registerB s =
     s\<lparr>ram := ram_write (ram s) (reg s registerA) (reg s registerB)\<rparr>"

definition handle_invalid_instruction :: "int \<Rightarrow> cpu \<Rightarrow> cpu" where
  "handle_invalid_instruction instruction s =
     handle_HLT (s\<lparr>console := console s @ [Log_invalid instruction]\<rparr>)"

subsection \<open>Interrupt servicing\<close>

text \<open>
  \<^verbatim>\<open>interrupt_general\<close>: two diagnostic dumps around the servicing proper, which clears
  register 6, pushes \<open>PC\<close>, pushes \<^verbatim>\<open>this.reg[i]\<close> for \<open>i\<close> from 0 to 7 (each read when
  its turn comes) and loads \<open>PC\<close> from address \<^verbatim>\<open>0xF8\<close>.
\<close>

definition dump_ram :: "cpu \<Rightarrow> event list" where
  "dump_ram s = map (\<lambda>i. Log_ram i (ram_read (ram s) i)) (rev [235..255])"

definition dump_registers :: "cpu \<Rightarrow> event list" where
  "dump_registers s = map (\<lambda>i. Log_register i (reg s i)) [0..7]"

definition interrupt_general :: "cpu \<Rightarrow> cpu" where
  "interrupt_general s =
     (let s1 = s\<lparr>console := console s @ dump_ram s @ [Log_rule, Log_PC (PC s)]
                    @ dump_registers s @ [Log_rule]\<rparr>;
          s2 = s1\<lparr>reg := (reg s1)(6 := 0)\<rparr>;
          s3 = handle_PUSHval (PC s2) s2;
          s4 = fold (\<lambda>i t. handle_PUSHval (reg t i) t) [0, 1, 2, 3, 4, 5, 6, 7] s3;
          s5 = s4\<lparr>PC := ram_read (ram s4) 248\<rparr>
      in s5\<lparr>console := console s5 @ [Log_end_PC (PC s5)] @ dump_ram s5 @ [Log_rule]\<rparr>)"

subsection \<open>The branch table\<close>

text \<open>
  The values of \<^verbatim>\<open>branchTable\<close> are the handler closures. \<open>parameters\<close> is the number
  of parameters a closure declares; \<open>invoke h operandA operandB\<close> is the call
  \<^verbatim>\<open>branchTable[IR](operandA, operandB)\<close>, in which a closure ignores the arguments it
  has no parameter for.
\<close>

datatype handler =
    Handle_ADD | Handle_CALL | Handle_CMP | Handle_HLT | Handle_JEQ | Handle_JGT
  | Handle_JLT | Handle_JMP | Handle_JNE | Handle_LDI | Handle_MUL | Handle_POP
  | Handle_PRA | Handle_PRN | Handle_PUSH | Handle_RET | Handle_ST

fun parameters :: "handler \<Rightarrow> nat" where
  "parameters Handle_ADD = 2"
| "parameters Handle_CALL = 1"
| "parameters Handle_CMP = 2"
| "parameters Handle_HLT = 0"
| "parameters Handle_JEQ = 1"
| "parameters Handle_JGT = 1"
| "parameters Handle_JLT = 1"
| "parameters Handle_JMP = 1"
| "parameters Handle_JNE = 1"
| "parameters Handle_LDI = 2"
| "parameters Handle_MUL = 2"
| "parameters Handle_POP = 1"
| "parameters Handle_PRA = 1"
| "parameters Handle_PRN = 1"
| "parameters Handle_PUSH = 1"
| "parameters Handle_RET = 0"
| "parameters Handle_ST = 2"

fun invoke :: "handler \<Rightarrow> int \<Rightarrow> int \<Rightarrow> cpu \<Rightarrow> cpu" where
  "invoke Handle_ADD a b s = handle_ADD a b s"
| "invoke Handle_CALL a b s = handle_CALL a s"
| "invoke Handle_CMP a b s = handle_CMP a b s"
| "invoke Handle_HLT a b s = handle_HLT s"
| "invoke Handle_JEQ a b s = handle_JEQ a s"
| "invoke Handle_JGT a b s = handle_JGT a s"
| "invoke Handle_JLT a b s = handle_JLT a s"
| "invoke Handle_JMP a b s = handle_JMP a s"
| "invoke Handle_JNE a b s = handle_JNE a s"
| "invoke Handle_LDI a b s = handle_LDI a b s"
| "invoke Handle_MUL a b s = handle_MUL a b s"
| "invoke Handle_POP a b s = handle_POP a s"
| "invoke Handle_PRA a b s = handle_PRA a s"
| "invoke Handle_PRN a b s = handle_PRN a s"
| "invoke Handle_PUSH a b s = handle_PUSH a s"
| "invoke Handle_RET a b s = handle_RET s"
| "invoke Handle_ST a b s = handle_ST a b s"

definition branchTable :: "(int \<times> handler) list" where
  "branchTable =
     [(ADD, Handle_ADD), (CALL, Handle_CALL), (CMP, Handle_CMP), (HLT, Handle_HLT),
      (JEQ, Handle_JEQ), (JGT, Handle_JGT), (JLT, Handle_JLT), (JMP, Handle_JMP),
      (JNE, Handle_JNE), (LDI, Handle_LDI), (MUL, Handle_MUL), (POP, Handle_POP),
      (PRA, Handle_PRA), (PRN, Handle_PRN), (PUSH, Handle_PUSH), (RET, Handle_RET),
      (ST, Handle_ST)]"

subsection \<open>The cycle\<close>

text \<open>\<^verbatim>\<open>x >>> n\<close> on an integer: the unsigned 32-bit value of \<open>x\<close>, shifted right.\<close>

definition ushr :: "int \<Rightarrow> nat \<Rightarrow> int" where
  "ushr x n = (x mod 2 ^ 32) div 2 ^ n"

text \<open>
  The three steps of \<^verbatim>\<open>tick\<close> that follow the fetch, in the order of the source:
  the interrupt check, the call through the branch table, and the final \<^verbatim>\<open>switch (IR)\<close>
  that moves \<open>PC\<close>.
\<close>

definition interrupt_check :: "cpu \<Rightarrow> cpu" where
  "interrupt_check s = (if reg s IS \<noteq> 0 then interrupt_general s else s)"

definition dispatch :: "int \<Rightarrow> int \<Rightarrow> int \<Rightarrow> cpu \<Rightarrow> cpu" where
  "dispatch IR operandA operandB s =
     (case map_of branchTable IR of
        Some h \<Rightarrow> invoke h operandA operandB s
      | None \<Rightarrow> handle_invalid_instruction IR s)"

definition advance_PC :: "int \<Rightarrow> cpu \<Rightarrow> cpu" where
  "advance_PC IR s =
     (if IR = CALL \<or> IR = JEQ \<or> IR = JGT \<or> IR = JLT \<or> IR = JMP \<or> IR = JNE \<or> IR = RET
      then s
      else s\<lparr>PC := PC s + (ushr IR 6 + 1)\<rparr>)"

text \<open>
  \<^verbatim>\<open>tick\<close>: \<open>IR\<close> and the two operands are read at the \<open>PC\<close> the cycle starts with,
  before the interrupt check.
\<close>

definition tick :: "cpu \<Rightarrow> cpu" where
  "tick s =
     (let IR = ram_read (ram s) (PC s);
          operandA = ram_read (ram s) (PC s + 1);
          operandB = ram_read (ram s) (PC s + 2)
      in advance_PC IR (dispatch IR operandA operandB (interrupt_check s)))"

subsection \<open>The clock\<close>

text \<open>
  \<^verbatim>\<open>startClock\<close> schedules the interval timer \<^verbatim>\<open>this.clock\<close>, whose callback is
  \<^verbatim>\<open>this.tick()\<close>; \<^verbatim>\<open>stopClock\<close> clears it. The host fires the callback of a scheduled
  timer and never that of a cleared one: \<open>clock_fires\<close> is one firing, \<open>run n\<close> is
  \<open>n\<close> firings in a row.
\<close>

definition startClock :: "cpu \<Rightarrow> cpu" where
  "startClock s = s\<lparr>clock := True\<rparr>"

definition clock_fires :: "cpu \<Rightarrow> cpu" where
  "clock_fires s = (if clock s then tick s else s)"

fun run :: "nat \<Rightarrow> cpu \<Rightarrow> cpu" where
  "run 0 s = s"
| "run (Suc n) s = run n (clock_fires s)"

text \<open>
  The external stimulus of an interrupt: something outside the cycle writes register 6
  between two ticks. The variant of the file whose timer is live has \<^verbatim>\<open>startClock\<close>
  schedule a second interval whose callback is \<^verbatim>\<open>this.reg[6] = 0b00000001\<close>.
\<close>

definition interrupt_request :: "int \<Rightarrow> cpu \<Rightarrow> cpu" where
  "interrupt_request v s = s\<lparr>reg := (reg s)(6 := v)\<rparr>"

subsection \<open>Example machines\<close>

text \<open>
  The host creates the CPU over a memory, pokes a program into it and starts the clock.
  \<open>boot\<close> does so for a list of address/byte pairs over a memory of zeros. The examples
  below are such machines, some of them with registers preloaded through \<open>handle_LDI\<close>
  and some taken after a few clock periods.
\<close>

definition boot :: "(int \<times> int) list \<Rightarrow> cpu" where
  "boot bytes =
     startClock (fold (\<lambda>(address, v). poke address v) bytes (constructor (\<lambda>_. 0)))"

text \<open>\<^verbatim>\<open>LDI R0,42\<close> followed by \<^verbatim>\<open>HLT\<close>.\<close>

definition plain_example :: cpu where
  "plain_example = boot [(0, LDI), (1, 0), (2, 42), (3, HLT)]"

text \<open>
  \<^verbatim>\<open>LDI R0,42\<close> at address 0, the interrupt vector pointing at a handler at address 32
  that starts with \<^verbatim>\<open>HLT\<close>, and an interrupt raised before the first tick.
\<close>

definition irq_example :: cpu where
  "irq_example =
     interrupt_request 1 (boot [(0, LDI), (1, 0), (2, 42), (32, HLT), (248, 32)])"

text \<open>
  Six \<^verbatim>\<open>LDI\<close> instructions that load 10 to 15 into registers 0 to 5, and the machine
  they leave after six clock periods, with an interrupt raised at that point.
\<close>

definition context_program :: cpu where
  "context_program =
     boot [(0, LDI), (1, 0), (2, 10), (3, LDI), (4, 1), (5, 11), (6, LDI), (7, 2), (8, 12),
           (9, LDI), (10, 3), (11, 13), (12, LDI), (13, 4), (14, 14), (15, LDI), (16, 5),
           (17, 15), (18, HLT), (32, HLT), (248, 32)]"

definition context_example :: cpu where
  "context_example = interrupt_request 1 (run 6 context_program)"

text \<open>The byte \<^verbatim>\<open>0b11111111\<close>, which is no opcode, at address 0.\<close>

definition invalid_example :: cpu where
  "invalid_example = boot [(0, 255), (1, 0), (2, 0)]"

text \<open>\<^verbatim>\<open>CMP R0,R1\<close> with \<open>R0 = 7\<close>, \<open>R1 = 3\<close> and the LESS flag left by an earlier comparison.\<close>

definition cmp_example :: cpu where
  "cmp_example =
     (handle_LDI 1 3 (handle_LDI 0 7 (boot [(0, CMP), (1, 0), (2, 1), (3, HLT)])))
       \<lparr>FL := 4\<rparr>"

text \<open>\<^verbatim>\<open>CALL R1\<close> at address 0 with \<open>R1 = 16\<close>, and a routine at 16 that is a lone \<^verbatim>\<open>RET\<close>.\<close>

definition call_example :: cpu where
  "call_example = handle_LDI 1 16 (boot [(0, CALL), (1, 1), (2, HLT), (16, RET)])"

text \<open>\<^verbatim>\<open>PUSH R7; POP R7\<close>: the register pushed is the Stack Pointer itself.\<close>

definition push_sp_example :: cpu where
  "push_sp_example = boot [(0, PUSH), (1, 7), (2, POP), (3, 7), (4, HLT)]"

text \<open>\<^verbatim>\<open>PUSH R0; POP R0\<close> with \<open>R0 = 99\<close>.\<close>

definition push_pop_example :: cpu where
  "push_pop_example =
     handle_LDI 0 99 (boot [(0, PUSH), (1, 0), (2, POP), (3, 0), (4, HLT)])"

text \<open>\<^verbatim>\<open>JEQ R0\<close> with \<open>R0 = 50\<close> while the flags say GREATER.\<close>

definition jeq_example :: cpu where
  "jeq_example = (handle_LDI 0 50 (boot [(0, JEQ), (1, 0), (2, HLT)]))\<lparr>FL := 2\<rparr>"

text \<open>\<^verbatim>\<open>ADD R0,R1\<close> with \<open>R0 = 3\<close> and \<open>R1 = 4\<close>.\<close>

definition add_example :: cpu where
  "add_example =
     handle_LDI 1 4 (handle_LDI 0 3 (boot [(0, ADD), (1, 0), (2, 1), (3, HLT)]))"

text \<open>\<^verbatim>\<open>MUL R0,R1\<close> with \<open>R0 = 200\<close> and \<open>R1 = 100\<close>.\<close>

definition wide_example :: cpu where
  "wide_example =
     handle_LDI 1 100 (handle_LDI 0 200 (boot [(0, MUL), (1, 0), (2, 1), (3, HLT)]))"

text \<open>
  \<^verbatim>\<open>LDI R0,3; ADD R0,R0\<close> after its first clock period: both operands of the ADD name
  the same register.
\<close>

definition alias_program :: cpu where
  "alias_program = boot [(0, LDI), (1, 0), (2, 3), (3, ADD), (4, 0), (5, 0), (6, HLT)]"

definition alias_example :: cpu where
  "alias_example = run 1 alias_program"

section \<open>Basic facts\<close>

lemmas opcode_defs =
  ADD_def CALL_def CMP_def HLT_def JEQ_def JGT_def JLT_def JMP_def JNE_def LDI_def
  MUL_def POP_def PRA_def PRN_def PUSH_def RET_def ST_def

lemmas handler_defs =
  handle_ADD_def handle_CALL_def handle_CMP_def handle_HLT_def handle_JEQ_def
  handle_JGT_def handle_JLT_def handle_JMP_def handle_JNE_def handle_LDI_def
  handle_MUL_def handle_POP_def handle_POPval_def handle_PRA_def handle_PRN_def
  handle_PUSH_def handle_PUSHval_def handle_RET_def handle_ST_def
  handle_invalid_instruction_def stopClock_def alu_def ram_read_def ram_write_def
  SP_def IS_def Let_def

subsection \<open>The cycle, step by step\<close>

text \<open>The cycle is the composition of its three steps on the bytes fetched first.\<close>

lemma tick_eq:
  "tick s = advance_PC (ram s (PC s))
     (dispatch (ram s (PC s)) (ram s (PC s + 1)) (ram s (PC s + 2)) (interrupt_check s))"
  by (simp add: tick_def ram_read_def Let_def)

lemma tick_idle:
  assumes "reg s IS = 0"
  shows "tick s = advance_PC (ram s (PC s))
     (dispatch (ram s (PC s)) (ram s (PC s + 1)) (ram s (PC s + 2)) s)"
  using assms by (simp add: tick_eq interrupt_check_def)

lemma dispatch_CALL: "dispatch CALL a b s = handle_CALL a s"
  and dispatch_RET: "dispatch RET a b s = handle_RET s"
  and dispatch_PUSH: "dispatch PUSH a b s = handle_PUSH a s"
  and dispatch_POP: "dispatch POP a b s = handle_POP a s"
  and dispatch_JEQ: "dispatch JEQ a b s = handle_JEQ a s"
  and dispatch_ADD: "dispatch ADD a b s = handle_ADD a b s"
  and dispatch_MUL: "dispatch MUL a b s = handle_MUL a b s"
  and dispatch_CMP: "dispatch CMP a b s = handle_CMP a b s"
  and dispatch_LDI: "dispatch LDI a b s = handle_LDI a b s"
  by (simp_all add: dispatch_def branchTable_def opcode_defs)

lemma dispatch_invalid:
  assumes "IR \<notin> fst ` set branchTable"
  shows "dispatch IR a b s = handle_invalid_instruction IR s"
proof -
  from assms have "map_of branchTable IR = None"
    by (simp add: map_of_eq_None_iff)
  then show ?thesis by (simp add: dispatch_def)
qed

text \<open>Only the handlers of the seven control-flow opcodes assign \<open>PC\<close>.\<close>

lemma dispatch_keeps_PC:
  assumes "IR \<notin> {CALL, JEQ, JGT, JLT, JMP, JNE, RET}"
  shows "PC (dispatch IR a b s) = PC s"
  using assms
  by (simp add: dispatch_def branchTable_def opcode_defs handler_defs)

lemma branchTable_parameters:
  assumes "(opcode, h) \<in> set branchTable"
  shows "int (parameters h) = opcode div 64 \<and> ushr opcode 6 = opcode div 64"
  using assms by (auto simp: branchTable_def opcode_defs ushr_def)

lemma advance_PC_fields:
  "clock (advance_PC IR s) = clock s" "console (advance_PC IR s) = console s"
  "reg (advance_PC IR s) = reg s" "ram (advance_PC IR s) = ram s"
  "FL (advance_PC IR s) = FL s"
  by (simp_all add: advance_PC_def)

lemma advance_PC_jumps:
  "advance_PC CALL s = s" "advance_PC RET s = s" "advance_PC JEQ s = s"
  by (simp_all add: advance_PC_def)

lemma advance_PC_others:
  "advance_PC PUSH s = s\<lparr>PC := PC s + 2\<rparr>" "advance_PC POP s = s\<lparr>PC := PC s + 2\<rparr>"
  "advance_PC ADD s = s\<lparr>PC := PC s + 3\<rparr>" "advance_PC MUL s = s\<lparr>PC := PC s + 3\<rparr>"
  "advance_PC LDI s = s\<lparr>PC := PC s + 3\<rparr>"
  by (simp_all add: advance_PC_def opcode_defs ushr_def)

lemma tick_CALL:
  assumes "reg s IS = 0" and "ram s (PC s) = CALL"
  shows "tick s = handle_CALL (ram s (PC s + 1)) s"
  using assms by (simp add: tick_idle dispatch_CALL advance_PC_jumps)

lemma tick_RET:
  assumes "reg s IS = 0" and "ram s (PC s) = RET"
  shows "tick s = handle_RET s"
  using assms by (simp add: tick_idle dispatch_RET advance_PC_jumps)

lemma tick_PUSH:
  assumes "reg s IS = 0" and "ram s (PC s) = PUSH"
  shows "tick s = (handle_PUSH (ram s (PC s + 1)) s)\<lparr>PC := PC s + 2\<rparr>"
  using assms
  by (simp add: tick_idle dispatch_PUSH advance_PC_others handle_PUSH_def Let_def)

lemma tick_POP:
  assumes "reg s IS = 0" and "ram s (PC s) = POP"
  shows "tick s = (handle_POP (ram s (PC s + 1)) s)\<lparr>PC := PC s + 2\<rparr>"
  using assms
  by (simp add: tick_idle dispatch_POP advance_PC_others handle_POP_def handle_POPval_def)

lemma tick_LDI:
  assumes "reg s IS = 0" and "ram s (PC s) = LDI"
  shows "tick s = s\<lparr>reg := (reg s)(ram s (PC s + 1) := ram s (PC s + 2)), PC := PC s + 3\<rparr>"
  using assms
  by (simp add: tick_idle dispatch_LDI advance_PC_others handle_LDI_def)

lemma tick_ADD:
  assumes "reg s IS = 0" and "ram s (PC s) = ADD"
  shows "tick s = (handle_ADD (ram s (PC s + 1)) (ram s (PC s + 2)) s)\<lparr>PC := PC s + 3\<rparr>"
  using assms
  by (simp add: tick_idle dispatch_ADD advance_PC_others handle_ADD_def alu_def)

lemma tick_MUL:
  assumes "reg s IS = 0" and "ram s (PC s) = MUL"
  shows "tick s = (handle_MUL (ram s (PC s + 1)) (ram s (PC s + 2)) s)\<lparr>PC := PC s + 3\<rparr>"
  using assms
  by (simp add: tick_idle dispatch_MUL advance_PC_others handle_MUL_def alu_def)

subsection \<open>What the handlers do to each component\<close>

lemma handle_PUSH_fields:
  "reg (handle_PUSH r s) = (reg s)(SP := reg s SP - 1)"
  "ram (handle_PUSH r s) = (ram s)(reg s SP - 1 := ((reg s)(SP := reg s SP - 1)) r)"
  "PC (handle_PUSH r s) = PC s"
  by (simp_all add: handle_PUSH_def Let_def ram_write_def)

lemma handle_POP_fields:
  "reg (handle_POP r s) = (reg s)(SP := reg s SP + 1, r := ram s (reg s SP))"
  "ram (handle_POP r s) = ram s"
  "PC (handle_POP r s) = PC s"
  by (simp_all add: handle_POP_def handle_POPval_def ram_read_def)

lemma handle_ADD_reg:
  "reg (handle_ADD A B s) = (reg s)(A := reg s A + reg s B)"
  by (simp add: handle_ADD_def alu_def)

lemma handle_MUL_reg:
  "reg (handle_MUL A B s) = (reg s)(A := reg s A * reg s B)"
  by (simp add: handle_MUL_def alu_def)

subsection \<open>What interrupt servicing does to each component\<close>

lemma interrupt_general_reg:
  "reg (interrupt_general s) = (reg s)(6 := 0, 7 := reg s 7 - 9)"
  by (simp add: interrupt_general_def handle_PUSHval_def ram_write_def ram_read_def
      Let_def SP_def fun_eq_iff)

lemma interrupt_general_ram:
  "ram (interrupt_general s) =
     (ram s)(reg s 7 - 1 := PC s, reg s 7 - 2 := reg s 0, reg s 7 - 3 := reg s 1,
             reg s 7 - 4 := reg s 2, reg s 7 - 5 := reg s 3, reg s 7 - 6 := reg s 4,
             reg s 7 - 7 := reg s 5, reg s 7 - 8 := 0, reg s 7 - 9 := reg s 7 - 8)"
  by (simp add: interrupt_general_def handle_PUSHval_def ram_write_def ram_read_def
      Let_def SP_def)

lemma interrupt_general_PC:
  "PC (interrupt_general s) = ram (interrupt_general s) 248"
  by (simp add: interrupt_general_def handle_PUSHval_def ram_write_def ram_read_def
      Let_def SP_def)

lemma interrupt_general_FL: "FL (interrupt_general s) = FL s"
  and interrupt_general_clock: "clock (interrupt_general s) = clock s"
  by (simp_all add: interrupt_general_def handle_PUSHval_def ram_write_def ram_read_def
      Let_def SP_def)

lemma interrupt_check_FL: "FL (interrupt_check s) = FL s"
  by (simp add: interrupt_check_def interrupt_general_FL)

subsection \<open>The clock\<close>

lemma run_stopped:
  assumes "\<not> clock s"
  shows "run n s = s"
  using assms by (induction n) (simp_all add: clock_fires_def)

lemma run_1: "run 1 s = clock_fires s"
  and run_6: "run 6 s =
    clock_fires (clock_fires (clock_fires (clock_fires (clock_fires (clock_fires s)))))"
  by (simp_all add: eval_nat_numeral)

subsection \<open>The example machines, component by component\<close>

lemma plain_example_simps:
  "PC plain_example = 0" "clock plain_example" "FL plain_example = 0"
  "console plain_example = []"
  "reg plain_example = (\<lambda>_. 0)(7 := 244, 6 := 0)"
  "ram plain_example = (\<lambda>_. 0)(0 := LDI, 1 := 0, 2 := 42, 3 := HLT)"
  by (simp_all add: plain_example_def boot_def startClock_def poke_def
      constructor_def ram_write_def)

lemma irq_example_simps:
  "PC irq_example = 0" "clock irq_example" "FL irq_example = 0"
  "reg irq_example = (\<lambda>_. 0)(7 := 244, 6 := 1)"
  "ram irq_example = (\<lambda>_. 0)(0 := LDI, 1 := 0, 2 := 42, 32 := HLT, 248 := 32)"
  by (simp_all add: irq_example_def boot_def interrupt_request_def startClock_def poke_def
      constructor_def ram_write_def)

lemma context_program_simps:
  "PC context_program = 0" "clock context_program" "FL context_program = 0"
  "console context_program = []"
  "reg context_program = (\<lambda>_. 0)(7 := 244, 6 := 0)"
  "ram context_program = (\<lambda>_. 0)(0 := LDI, 1 := 0, 2 := 10, 3 := LDI, 4 := 1, 5 := 11,
     6 := LDI, 7 := 2, 8 := 12, 9 := LDI, 10 := 3, 11 := 13, 12 := LDI, 13 := 4, 14 := 14,
     15 := LDI, 16 := 5, 17 := 15, 18 := HLT, 32 := HLT, 248 := 32)"
  by (simp_all add: context_program_def boot_def startClock_def poke_def
      constructor_def ram_write_def)

lemma context_example_simps:
  "PC context_example = 18" "clock context_example" "FL context_example = 0"
  "reg context_example =
     (\<lambda>_. 0)(7 := 244, 0 := 10, 1 := 11, 2 := 12, 3 := 13, 4 := 14, 5 := 15, 6 := 1)"
  "ram context_example = ram context_program"
  by (simp_all add: context_example_def interrupt_request_def run_6 clock_fires_def
      tick_LDI context_program_simps IS_def fun_upd_twist)

lemma invalid_example_simps:
  "PC invalid_example = 0" "clock invalid_example" "FL invalid_example = 0"
  "console invalid_example = []"
  "reg invalid_example = (\<lambda>_. 0)(7 := 244, 6 := 0)"
  "ram invalid_example = (\<lambda>_. 0)(0 := 255, 1 := 0, 2 := 0)"
  by (simp_all add: invalid_example_def boot_def startClock_def poke_def
      constructor_def ram_write_def)

lemma cmp_example_simps:
  "PC cmp_example = 0" "clock cmp_example" "FL cmp_example = 4"
  "console cmp_example = []"
  "reg cmp_example = (\<lambda>_. 0)(7 := 244, 6 := 0, 0 := 7, 1 := 3)"
  "ram cmp_example = (\<lambda>_. 0)(0 := CMP, 1 := 0, 2 := 1, 3 := HLT)"
  by (simp_all add: cmp_example_def boot_def startClock_def poke_def
      constructor_def ram_write_def handle_LDI_def)

lemma call_example_simps:
  "PC call_example = 0" "clock call_example" "FL call_example = 0"
  "console call_example = []"
  "reg call_example = (\<lambda>_. 0)(7 := 244, 6 := 0, 1 := 16)"
  "ram call_example = (\<lambda>_. 0)(0 := CALL, 1 := 1, 2 := HLT, 16 := RET)"
  by (simp_all add: call_example_def boot_def startClock_def poke_def
      constructor_def ram_write_def handle_LDI_def)

lemma push_sp_example_simps:
  "PC push_sp_example = 0" "clock push_sp_example" "FL push_sp_example = 0"
  "console push_sp_example = []"
  "reg push_sp_example = (\<lambda>_. 0)(7 := 244, 6 := 0)"
  "ram push_sp_example = (\<lambda>_. 0)(0 := PUSH, 1 := 7, 2 := POP, 3 := 7, 4 := HLT)"
  by (simp_all add: push_sp_example_def boot_def startClock_def poke_def
      constructor_def ram_write_def)

lemma push_pop_example_simps:
  "PC push_pop_example = 0" "clock push_pop_example" "FL push_pop_example = 0"
  "console push_pop_example = []"
  "reg push_pop_example = (\<lambda>_. 0)(7 := 244, 6 := 0, 0 := 99)"
  "ram push_pop_example = (\<lambda>_. 0)(0 := PUSH, 1 := 0, 2 := POP, 3 := 0, 4 := HLT)"
  by (simp_all add: push_pop_example_def boot_def startClock_def poke_def
      constructor_def ram_write_def handle_LDI_def)

lemma jeq_example_simps:
  "PC jeq_example = 0" "clock jeq_example" "FL jeq_example = 2"
  "console jeq_example = []"
  "reg jeq_example = (\<lambda>_. 0)(7 := 244, 6 := 0, 0 := 50)"
  "ram jeq_example = (\<lambda>_. 0)(0 := JEQ, 1 := 0, 2 := HLT)"
  by (simp_all add: jeq_example_def boot_def startClock_def poke_def
      constructor_def ram_write_def handle_LDI_def)

lemma add_example_simps:
  "PC add_example = 0" "clock add_example" "FL add_example = 0"
  "console add_example = []"
  "reg add_example = (\<lambda>_. 0)(7 := 244, 6 := 0, 0 := 3, 1 := 4)"
  "ram add_example = (\<lambda>_. 0)(0 := ADD, 1 := 0, 2 := 1, 3 := HLT)"
  by (simp_all add: add_example_def boot_def startClock_def poke_def
      constructor_def ram_write_def handle_LDI_def)

lemma wide_example_simps:
  "PC wide_example = 0" "clock wide_example" "FL wide_example = 0"
  "console wide_example = []"
  "reg wide_example = (\<lambda>_. 0)(7 := 244, 6 := 0, 0 := 200, 1 := 100)"
  "ram wide_example = (\<lambda>_. 0)(0 := MUL, 1 := 0, 2 := 1, 3 := HLT)"
  by (simp_all add: wide_example_def boot_def startClock_def poke_def
      constructor_def ram_write_def handle_LDI_def)

lemma alias_program_simps:
  "PC alias_program = 0" "clock alias_program" "FL alias_program = 0"
  "console alias_program = []"
  "reg alias_program = (\<lambda>_. 0)(7 := 244, 6 := 0)"
  "ram alias_program = (\<lambda>_. 0)(0 := LDI, 1 := 0, 2 := 3, 3 := ADD, 4 := 0, 5 := 0, 6 := HLT)"
  by (simp_all add: alias_program_def boot_def startClock_def poke_def
      constructor_def ram_write_def)

lemma alias_example_simps:
  "PC alias_example = 3" "clock alias_example" "FL alias_example = 0"
  "console alias_example = []"
  "reg alias_example = (\<lambda>_. 0)(7 := 244, 6 := 0, 0 := 3)"
  "ram alias_example = ram alias_program"
  by (simp_all add: alias_example_def run_1 clock_fires_def tick_LDI alias_program_simps
      IS_def)

section \<open>The order of interrupt check and fetch\<close>

text \<open>
  Claim C1. On a tick that begins with IS nonzero, the instruction dispatched in that
  tick should be the one at the handler address taken from the interrupt vector. The
  cycle of \<^verbatim>\<open>cpu.js\<close> reads \<open>IR\<close> and the operands before it runs the interrupt check,
  so it dispatches the instruction of the interrupted program instead. On \<open>irq_example\<close>
  the vector leads to a \<^verbatim>\<open>HLT\<close> at address 32; the tick executes \<^verbatim>\<open>LDI R0,42\<close> from
  address 0 (register 0 becomes 42), the clock keeps running, and \<open>PC\<close> ends at
  \<open>32 + 3\<close>, past the first bytes of the handler.
\<close>

theorem tick_pending_interrupt_dispatches_old_instruction:
  "reg irq_example IS \<noteq> 0
   \<and> ram_read (ram irq_example) (PC irq_example) = LDI
   \<and> PC (interrupt_check irq_example) = 32
   \<and> ram_read (ram (interrupt_check irq_example)) 32 = HLT
   \<and> reg (tick irq_example) 0 = 42
   \<and> clock (tick irq_example)
   \<and> PC (tick irq_example) = 35"
  by (simp add: tick_eq irq_example_simps interrupt_check_def interrupt_general_reg
      interrupt_general_ram interrupt_general_PC interrupt_general_clock
      dispatch_def branchTable_def handle_LDI_def advance_PC_def ushr_def opcode_defs
      IS_def ram_read_def)

section \<open>The context saved by interrupt servicing\<close>

text \<open>
  Claim C2, as stated: after servicing, the stack holds from its top downward the values
  of registers 7 down to 0, with the pre-interrupt \<open>PC\<close> beneath. On \<open>context_example\<close>
  (registers 0 to 5 hold 10 to 15, IS is 1, SP is 244, \<open>PC\<close> is 18) the top of the stack
  holds 236,
  which is the value of register 7 neither before servicing (244) nor after it (235),
  and the cell beneath holds 0 where register 6 held 1.
\<close>

theorem interrupt_stack_top_is_not_register_7:
  "reg context_example IS \<noteq> 0
   \<and> ram_read (ram (interrupt_check context_example))
        (reg (interrupt_check context_example) SP) = 236
   \<and> reg context_example 7 = 244
   \<and> reg (interrupt_check context_example) 7 = 235
   \<and> ram_read (ram (interrupt_check context_example))
        (reg (interrupt_check context_example) SP + 1) = 0
   \<and> reg context_example 6 = 1"
  by (simp add: context_example_simps context_program_simps interrupt_check_def
      interrupt_general_reg interrupt_general_ram IS_def SP_def ram_read_def)

text \<open>
  Claim C2, amended. For every tick that starts with IS nonzero, right after servicing:
  IS reads 0, \<open>PC\<close> equals the cell at address \<^verbatim>\<open>0xF8\<close>, SP is 9 below its
  pre-interrupt value, and the stack holds from its top downward: the pre-interrupt SP
  minus 8, then 0, then the pre-interrupt values of registers 5 down to 0, then the
  pre-interrupt \<open>PC\<close>.
\<close>

theorem interrupt_servicing_saved_context:
  fixes s :: cpu
  defines "t \<equiv> interrupt_check s"
  assumes "reg s IS \<noteq> 0"
  shows "reg t IS = 0
    \<and> PC t = ram_read (ram t) 248
    \<and> reg t SP = reg s SP - 9
    \<and> ram_read (ram t) (reg t SP) = reg s SP - 8
    \<and> ram_read (ram t) (reg t SP + 1) = 0
    \<and> ram_read (ram t) (reg t SP + 2) = reg s 5
    \<and> ram_read (ram t) (reg t SP + 3) = reg s 4
    \<and> ram_read (ram t) (reg t SP + 4) = reg s 3
    \<and> ram_read (ram t) (reg t SP + 5) = reg s 2
    \<and> ram_read (ram t) (reg t SP + 6) = reg s 1
    \<and> ram_read (ram t) (reg t SP + 7) = reg s 0
    \<and> ram_read (ram t) (reg t SP + 8) = PC s"
  using assms
  by (simp add: interrupt_check_def interrupt_general_reg interrupt_general_ram
      interrupt_general_PC IS_def SP_def ram_read_def)

theorem interrupt_servicing_saved_context_witness:
  "reg context_example IS \<noteq> 0
   \<and> reg (interrupt_check context_example) IS = 0
   \<and> PC (interrupt_check context_example) = 32
   \<and> reg (interrupt_check context_example) SP = 235
   \<and> ram_read (ram (interrupt_check context_example)) 235 = 236
   \<and> ram_read (ram (interrupt_check context_example)) 236 = 0
   \<and> ram_read (ram (interrupt_check context_example)) 237 = 15
   \<and> ram_read (ram (interrupt_check context_example)) 242 = 10
   \<and> ram_read (ram (interrupt_check context_example)) 243 = 18"
proof -
  have pending: "reg context_example IS \<noteq> 0"
    by (simp add: context_example_simps IS_def)
  have vector: "ram_read (ram (interrupt_check context_example)) 248 = 32"
    by (simp add: context_example_simps context_program_simps interrupt_check_def
        interrupt_general_ram IS_def ram_read_def)
  from interrupt_servicing_saved_context [OF pending] vector pending show ?thesis
    by (clarsimp simp: context_example_simps SP_def)
qed

text \<open>
  Claim C3. The values pushed for registers 6 and 7 are not their pre-interrupt values.
  The pushes run in the order \<open>PC\<close>, register 0, ..., register 7 on a descending stack,
  so the value pushed for register 6 lies at the pre-interrupt SP minus 8 and the one
  pushed for register 7 at the pre-interrupt SP minus 9, the new top of the stack. The
  former is 0, because IS is cleared before the pushes, whereas IS was nonzero; the
  latter is the pre-interrupt SP minus 8, the Stack Pointer as the eight preceding
  pushes have left it.
\<close>

theorem interrupt_pushes_cleared_IS_and_moved_SP:
  fixes s :: cpu
  defines "t \<equiv> interrupt_check s"
  assumes "reg s IS \<noteq> 0"
  shows "reg t SP = reg s SP - 9
    \<and> ram_read (ram t) (reg s SP - 8) = 0
    \<and> ram_read (ram t) (reg s SP - 8) \<noteq> reg s 6
    \<and> ram_read (ram t) (reg s SP - 9) = reg s SP - 8
    \<and> ram_read (ram t) (reg s SP - 9) \<noteq> reg s 7"
  using assms
  by (simp add: interrupt_check_def interrupt_general_reg interrupt_general_ram
      IS_def SP_def ram_read_def)

theorem interrupt_pushes_cleared_IS_and_moved_SP_witness:
  "reg context_example IS \<noteq> 0
   \<and> reg context_example 6 = 1
   \<and> reg context_example 7 = 244
   \<and> ram_read (ram (interrupt_check context_example)) 236 = 0
   \<and> ram_read (ram (interrupt_check context_example)) 235 = 236"
proof -
  have pending: "reg context_example IS \<noteq> 0"
    by (simp add: context_example_simps IS_def)
  from interrupt_pushes_cleared_IS_and_moved_SP [OF pending] pending show ?thesis
    by (clarsimp simp: context_example_simps SP_def)
qed

section \<open>Decoding and the advance of the Program Counter\<close>

text \<open>
  Claim C4. For every opcode of the branch table, the number of operands its handler
  takes equals the opcode's two high bits, \<^verbatim>\<open>opcode >>> 6\<close>. For every \<open>IR\<close> outside
  CALL, JMP, RET, JEQ, JGT, JLT, JNE the final step of the cycle adds \<open>1 + (IR >>> 6)\<close>
  to \<open>PC\<close> and the handler dispatched before it leaves \<open>PC\<close> alone, so the whole tick
  moves \<open>PC\<close> by that amount from where the interrupt check left it; for the seven
  opcodes of the set the final step changes nothing.
\<close>

theorem operand_count_and_PC_advance:
  "((opcode, h) \<in> set branchTable \<longrightarrow>
      int (parameters h) = ushr opcode 6 \<and> ushr opcode 6 = opcode div 64)
   \<and> (IR \<notin> {CALL, JMP, RET, JEQ, JGT, JLT, JNE} \<longrightarrow>
        advance_PC IR s = s\<lparr>PC := PC s + (1 + ushr IR 6)\<rparr>
        \<and> PC (advance_PC IR (dispatch IR a b s)) = PC s + (1 + ushr IR 6))
   \<and> (J \<in> {CALL, JMP, RET, JEQ, JGT, JLT, JNE} \<longrightarrow> advance_PC J s = s)
   \<and> (ram_read (ram s) (PC s) \<notin> {CALL, JMP, RET, JEQ, JGT, JLT, JNE} \<longrightarrow>
        PC (tick s) = PC (interrupt_check s) + (1 + ushr (ram_read (ram s) (PC s)) 6))"
proof (intro conjI impI)
  assume "(opcode, h) \<in> set branchTable"
  from branchTable_parameters [OF this]
  show "int (parameters h) = ushr opcode 6" and "ushr opcode 6 = opcode div 64"
    by simp_all
next
  assume out: "IR \<notin> {CALL, JMP, RET, JEQ, JGT, JLT, JNE}"
  then show "advance_PC IR s = s\<lparr>PC := PC s + (1 + ushr IR 6)\<rparr>"
    by (simp add: advance_PC_def)
  from out have "IR \<notin> {CALL, JEQ, JGT, JLT, JMP, JNE, RET}" by auto
  from dispatch_keeps_PC [OF this] out
  show "PC (advance_PC IR (dispatch IR a b s)) = PC s + (1 + ushr IR 6)"
    by (simp add: advance_PC_def)
next
  assume "J \<in> {CALL, JMP, RET, JEQ, JGT, JLT, JNE}"
  then show "advance_PC J s = s"
    by (auto simp: advance_PC_def)
next
  assume out: "ram_read (ram s) (PC s) \<notin> {CALL, JMP, RET, JEQ, JGT, JLT, JNE}"
  then have "ram s (PC s) \<notin> {CALL, JEQ, JGT, JLT, JMP, JNE, RET}"
    by (auto simp: ram_read_def)
  from dispatch_keeps_PC [OF this] out
  show "PC (tick s) = PC (interrupt_check s) + (1 + ushr (ram_read (ram s) (PC s)) 6)"
    by (simp add: tick_eq advance_PC_def ram_read_def)
qed

theorem operand_count_and_PC_advance_witness:
  "(LDI, Handle_LDI) \<in> set branchTable
   \<and> parameters Handle_LDI = 2
   \<and> ushr LDI 6 = 2
   \<and> LDI \<notin> {CALL, JMP, RET, JEQ, JGT, JLT, JNE}
   \<and> PC (advance_PC LDI plain_example) = 3
   \<and> JEQ \<in> {CALL, JMP, RET, JEQ, JGT, JLT, JNE}
   \<and> advance_PC JEQ plain_example = plain_example
   \<and> ram_read (ram plain_example) (PC plain_example) = LDI
   \<and> PC (tick plain_example) = 3"
proof -
  have table: "(LDI, Handle_LDI) \<in> set branchTable"
    by (simp add: branchTable_def)
  have out: "LDI \<notin> {CALL, JMP, RET, JEQ, JGT, JLT, JNE}"
    by (simp add: opcode_defs)
  have inside: "JEQ \<in> {CALL, JMP, RET, JEQ, JGT, JLT, JNE}"
    by simp
  have fetched: "ram_read (ram plain_example) (PC plain_example) = LDI"
    by (simp add: plain_example_simps ram_read_def)
  have idle: "interrupt_check plain_example = plain_example"
    by (simp add: interrupt_check_def plain_example_simps IS_def)
  have count: "ushr LDI 6 = 2"
    by (simp add: ushr_def opcode_defs)
  from operand_count_and_PC_advance [of LDI Handle_LDI LDI plain_example 0 42 JEQ]
    table out inside fetched idle count
  show ?thesis
    by (simp add: plain_example_simps)
qed

section \<open>Invalid opcodes\<close>

text \<open>
  Claim C5. For every opcode byte that is not a key of the branch table, the cycle logs
  the offending byte and stops the clock; the instruction itself changes neither the
  registers nor the memory, and once the halted tick is over no number of further clock
  periods changes the machine at all.
\<close>

theorem invalid_opcode_reports_and_halts:
  assumes "ram_read (ram s) (PC s) \<notin> fst ` set branchTable"
  shows "console (tick s) = console (interrupt_check s) @ [Log_invalid (ram_read (ram s) (PC s))]
    \<and> \<not> clock (tick s)
    \<and> reg (tick s) = reg (interrupt_check s)
    \<and> ram (tick s) = ram (interrupt_check s)
    \<and> run n (tick s) = tick s"
proof -
  from assms have "ram s (PC s) \<notin> fst ` set branchTable"
    by (simp add: ram_read_def)
  from dispatch_invalid [OF this]
  have t: "tick s = advance_PC (ram s (PC s))
             (handle_invalid_instruction (ram s (PC s)) (interrupt_check s))"
    by (simp add: tick_eq)
  have halted: "\<not> clock (tick s)"
    by (simp add: t advance_PC_fields handle_invalid_instruction_def handle_HLT_def
        stopClock_def)
  from run_stopped [OF halted] have "run n (tick s) = tick s" .
  with halted show ?thesis
    by (simp add: t advance_PC_fields handle_invalid_instruction_def handle_HLT_def
        stopClock_def ram_read_def)
qed

theorem invalid_opcode_reports_and_halts_witness:
  "ram_read (ram invalid_example) (PC invalid_example) = 255
   \<and> 255 \<notin> fst ` set branchTable
   \<and> clock invalid_example
   \<and> console (tick invalid_example) = [Log_invalid 255]
   \<and> \<not> clock (tick invalid_example)
   \<and> run 3 (tick invalid_example) = tick invalid_example"
proof -
  have fetched: "ram_read (ram invalid_example) (PC invalid_example) = 255"
    by (simp add: invalid_example_simps ram_read_def)
  have absent: "(255::int) \<notin> fst ` set branchTable"
    by (simp add: branchTable_def opcode_defs)
  have idle: "interrupt_check invalid_example = invalid_example"
    by (simp add: interrupt_check_def invalid_example_simps IS_def)
  from absent fetched
  have "ram_read (ram invalid_example) (PC invalid_example) \<notin> fst ` set branchTable"
    by simp
  from invalid_opcode_reports_and_halts [OF this, of 3] fetched absent idle
  show ?thesis
    by (simp add: invalid_example_simps)
qed

section \<open>Comparison flags\<close>



section \<open>Subroutine call and return\<close>

text \<open>
  Claim C7. CALL executed with \<open>PC\<close> at \<open>P\<close>, followed by the matching RET, leaves
  \<open>PC\<close> at \<open>P + 2\<close>, the address after the CALL and its operand byte. This is shown
  for the two handlers run back to back; for the RET handler run on any machine \<open>v\<close>
  reached with balanced stack use, that is, whose SP is what the CALL left and whose
  cell at SP still holds what the CALL pushed; and for the cycle: a tick without pending
  interrupt that dispatches the CALL at address \<open>PC s\<close>, and a later tick without
  pending interrupt that dispatches the RET on a machine \<open>u\<close> with the stack so
  balanced.
\<close>

theorem CALL_then_RET_resumes_after_CALL:
  "PC (handle_RET (handle_CALL r s)) = PC s + 2
   \<and> (reg v SP = reg (handle_CALL r s) SP
       \<and> ram_read (ram v) (reg v SP)
           = ram_read (ram (handle_CALL r s)) (reg (handle_CALL r s) SP) \<longrightarrow>
      PC (handle_RET v) = PC s + 2)
   \<and> (reg s IS = 0 \<and> ram_read (ram s) (PC s) = CALL
       \<and> reg u SP = reg (tick s) SP
       \<and> ram_read (ram u) (reg u SP) = ram_read (ram (tick s)) (reg (tick s) SP)
       \<and> reg u IS = 0 \<and> ram_read (ram u) (PC u) = RET \<longrightarrow>
      PC (tick u) = PC s + 2)"
proof -
  have pushed: "ram (handle_CALL x s) (reg (handle_CALL x s) SP) = PC s + 2" for x
    by (simp add: handle_CALL_def handle_PUSHval_def ram_write_def Let_def)
  have popped: "PC (handle_RET w) = ram w (reg w SP)" for w
    by (simp add: handle_RET_def handle_POPval_def ram_read_def)
  have direct: "PC (handle_RET (handle_CALL r s)) = PC s + 2"
    by (simp add: popped pushed)
  have balanced: "PC (handle_RET v) = PC s + 2"
    if "reg v SP = reg (handle_CALL r s) SP"
      and "ram_read (ram v) (reg v SP)
           = ram_read (ram (handle_CALL r s)) (reg (handle_CALL r s) SP)"
    using that by (simp add: popped pushed ram_read_def)
  have cycle: "PC (tick u) = PC s + 2"
    if call: "reg s IS = 0" "ram_read (ram s) (PC s) = CALL"
      and same: "reg u SP = reg (tick s) SP"
        "ram_read (ram u) (reg u SP) = ram_read (ram (tick s)) (reg (tick s) SP)"
      and ret: "reg u IS = 0" "ram_read (ram u) (PC u) = RET"
  proof -
    from call have first: "tick s = handle_CALL (ram s (PC s + 1)) s"
      by (simp add: tick_CALL ram_read_def)
    from ret have "tick u = handle_RET u"
      by (simp add: tick_RET ram_read_def)
    then have "PC (tick u) = ram u (reg u SP)"
      by (simp add: popped)
    also from same(2) have "\<dots> = ram (tick s) (reg (tick s) SP)"
      by (simp add: ram_read_def)
    also have "\<dots> = PC s + 2"
      by (simp add: first pushed)
    finally show ?thesis .
  qed
  from direct balanced cycle show ?thesis by blast
qed

theorem CALL_then_RET_resumes_after_CALL_witness:
  "reg call_example IS = 0
   \<and> ram_read (ram call_example) (PC call_example) = CALL
   \<and> PC call_example = 0
   \<and> PC (tick call_example) = 16
   \<and> reg (tick call_example) IS = 0
   \<and> ram_read (ram (tick call_example)) (PC (tick call_example)) = RET
   \<and> PC (tick (tick call_example)) = 2
   \<and> PC (handle_RET (handle_CALL 1 call_example)) = 2"
proof -
  have idle: "reg call_example IS = 0"
    by (simp add: call_example_simps IS_def)
  have fetched: "ram_read (ram call_example) (PC call_example) = CALL"
    by (simp add: call_example_simps ram_read_def)
  have first: "tick call_example = handle_CALL 1 call_example"
    using idle by (simp add: tick_CALL call_example_simps)
  have idle': "reg (tick call_example) IS = 0"
    by (simp add: first handle_CALL_def handle_PUSHval_def Let_def call_example_simps
        IS_def SP_def)
  have target: "PC (tick call_example) = 16"
    by (simp add: first handle_CALL_def handle_PUSHval_def Let_def call_example_simps SP_def)
  have fetched': "ram_read (ram (tick call_example)) (PC (tick call_example)) = RET"
    by (simp add: target)
       (simp add: first handle_CALL_def handle_PUSHval_def Let_def call_example_simps
        SP_def ram_read_def ram_write_def opcode_defs)
  from CALL_then_RET_resumes_after_CALL
         [of 1 call_example "tick call_example" "tick call_example"]
       idle fetched idle' fetched' target
  show ?thesis
    by (simp add: call_example_simps first)
qed

section \<open>Push and pop\<close>

text \<open>
  Claim C8, as stated: for every register \<open>r\<close>, PUSH \<open>r\<close> followed by POP \<open>r\<close> gives
  the register its value back and returns SP to its value before the PUSH. For
  register 7, the Stack Pointer itself, it does not: PUSH decrements SP and stores the
  decremented value, and POP assigns that value to register 7 after its own increment.
  On \<open>push_sp_example\<close>, SP is 244 before and 243 after, for the two handlers as for the
  two ticks.
\<close>

theorem PUSH_SP_then_POP_SP_moves_SP:
  "reg push_sp_example SP = 244
   \<and> reg (handle_POP SP (handle_PUSH SP push_sp_example)) SP = 243
   \<and> reg push_sp_example IS = 0
   \<and> ram_read (ram push_sp_example) 0 = PUSH \<and> ram_read (ram push_sp_example) 1 = SP
   \<and> ram_read (ram (tick push_sp_example)) 2 = POP
   \<and> ram_read (ram (tick push_sp_example)) 3 = SP
   \<and> reg (tick (tick push_sp_example)) SP = 243"
proof -
  have first: "tick push_sp_example = (handle_PUSH 7 push_sp_example)\<lparr>PC := 2\<rparr>"
    by (simp add: tick_PUSH push_sp_example_simps IS_def)
  have second: "tick (tick push_sp_example) =
      (handle_POP 7 (tick push_sp_example))\<lparr>PC := 4\<rparr>"
    by (subst tick_POP)
       (simp_all add: first handle_PUSH_fields push_sp_example_simps IS_def SP_def opcode_defs)
  show ?thesis
    by (simp add: second handle_POP_fields)
       (simp add: first handle_PUSH_fields push_sp_example_simps IS_def SP_def opcode_defs
        ram_read_def)
qed

text \<open>
  Claim C8, amended. For every register \<open>r\<close> among the eight other than the Stack
  Pointer, and every machine state, PUSH \<open>r\<close> followed by POP \<open>r\<close> leaves register
  \<open>r\<close> and SP (indeed every register) as they were before the PUSH. This holds for
  the two handlers run back to back, and for two consecutive ticks without pending
  interrupt that dispatch PUSH \<open>r\<close> and then POP \<open>r\<close>.
\<close>

theorem PUSH_then_POP_restores_register_and_SP:
  assumes "r \<in> {0..7}" and "r \<noteq> SP"
  shows "reg (handle_POP r (handle_PUSH r s)) r = reg s r
    \<and> reg (handle_POP r (handle_PUSH r s)) SP = reg s SP
    \<and> reg (handle_POP r (handle_PUSH r s)) = reg s
    \<and> (reg s IS = 0
        \<and> ram_read (ram s) (PC s) = PUSH \<and> ram_read (ram s) (PC s + 1) = r
        \<and> ram_read (ram (tick s)) (PC s + 2) = POP
        \<and> ram_read (ram (tick s)) (PC s + 3) = r \<longrightarrow>
       reg (tick (tick s)) r = reg s r \<and> reg (tick (tick s)) SP = reg s SP
       \<and> reg (tick (tick s)) = reg s \<and> PC (tick (tick s)) = PC s + 4)"
proof -
  have pair: "reg (handle_POP r (handle_PUSH r u)) = reg u" for u
    using assms(2)
    by (simp add: handle_POP_fields handle_PUSH_fields fun_eq_iff)
  have cycle: "reg (tick (tick s)) = reg s \<and> PC (tick (tick s)) = PC s + 4"
    if idle: "reg s IS = 0"
      and push: "ram_read (ram s) (PC s) = PUSH" "ram_read (ram s) (PC s + 1) = r"
      and pop: "ram_read (ram (tick s)) (PC s + 2) = POP"
        "ram_read (ram (tick s)) (PC s + 3) = r"
  proof -
    from idle push have first: "tick s = (handle_PUSH r s)\<lparr>PC := PC s + 2\<rparr>"
      by (simp add: tick_PUSH ram_read_def)
    have idle': "reg (tick s) IS = 0"
      using idle by (simp add: first handle_PUSH_fields IS_def SP_def)
    have at: "PC (tick s) = PC s + 2"
      by (simp add: first)
    from pop at have "ram (tick s) (PC (tick s)) = POP"
      and "ram (tick s) (PC (tick s) + 1) = r"
      by (simp_all add: ram_read_def add.commute)
    with idle' have second: "tick (tick s) = (handle_POP r (tick s))\<lparr>PC := PC (tick s) + 2\<rparr>"
      by (simp add: tick_POP)
    have "handle_POP r (tick s) = (handle_POP r (handle_PUSH r s))\<lparr>PC := PC s + 2\<rparr>"
      by (simp add: first handle_POP_def handle_POPval_def)
    then have "tick (tick s) = (handle_POP r (handle_PUSH r s))\<lparr>PC := PC s + 4\<rparr>"
      by (simp add: second at)
    then have "reg (tick (tick s)) = reg (handle_POP r (handle_PUSH r s))"
      and "PC (tick (tick s)) = PC s + 4"
      by simp_all
    with pair [of s] show ?thesis
      by simp
  qed
  from pair [of s] cycle show ?thesis by simp
qed

theorem PUSH_then_POP_restores_register_and_SP_witness:
  "(0::int) \<in> {0..7} \<and> (0::int) \<noteq> SP
   \<and> reg push_pop_example 0 = 99 \<and> reg push_pop_example SP = 244
   \<and> reg (handle_PUSH 0 push_pop_example) SP = 243
   \<and> reg (handle_POP 0 (handle_PUSH 0 push_pop_example)) 0 = 99
   \<and> reg (handle_POP 0 (handle_PUSH 0 push_pop_example)) SP = 244
   \<and> reg push_pop_example IS = 0
   \<and> ram_read (ram push_pop_example) (PC push_pop_example) = PUSH
   \<and> ram_read (ram push_pop_example) (PC push_pop_example + 1) = 0
   \<and> ram_read (ram (tick push_pop_example)) (PC push_pop_example + 2) = POP
   \<and> ram_read (ram (tick push_pop_example)) (PC push_pop_example + 3) = 0
   \<and> reg (tick (tick push_pop_example)) 0 = 99
   \<and> reg (tick (tick push_pop_example)) SP = 244
   \<and> PC (tick (tick push_pop_example)) = 4"
proof -
  have r: "(0::int) \<in> {0..7}" and r': "(0::int) \<noteq> SP"
    by (simp_all add: SP_def)
  have idle: "reg push_pop_example IS = 0"
    by (simp add: push_pop_example_simps IS_def)
  have first: "tick push_pop_example = (handle_PUSH 0 push_pop_example)\<lparr>PC := 2\<rparr>"
    by (simp add: tick_PUSH push_pop_example_simps IS_def)
  have push: "ram_read (ram push_pop_example) (PC push_pop_example) = PUSH"
    "ram_read (ram push_pop_example) (PC push_pop_example + 1) = 0"
    by (simp_all add: push_pop_example_simps ram_read_def)
  have pop: "ram_read (ram (tick push_pop_example)) (PC push_pop_example + 2) = POP"
    "ram_read (ram (tick push_pop_example)) (PC push_pop_example + 3) = 0"
    by (simp_all add: first handle_PUSH_fields push_pop_example_simps ram_read_def SP_def
        opcode_defs)
  have down: "reg (handle_PUSH 0 push_pop_example) SP = 243"
    by (simp add: handle_PUSH_fields push_pop_example_simps SP_def)
  from PUSH_then_POP_restores_register_and_SP [OF r r', of push_pop_example]
    r r' idle push pop down
  show ?thesis
    by (simp add: push_pop_example_simps SP_def)
qed

section \<open>A conditional jump that is not taken\<close>

text \<open>
  Claim C9. In every tick that dispatches JEQ while \<open>FL\<close> is not EQUAL, \<open>PC\<close> ends
  exactly 2 above the value the interrupt check has left it at, which is the address of
  the JEQ when no interrupt is pending; the register operand plays no part; and the
  final step of the cycle adds nothing for JEQ.
\<close>

theorem JEQ_not_taken_advances_PC_by_two:
  assumes "ram_read (ram s) (PC s) = JEQ" and "FL s \<noteq> 1"
  shows "PC (tick s) = PC (interrupt_check s) + 2
    \<and> (reg s IS = 0 \<longrightarrow> PC (tick s) = PC s + 2)
    \<and> PC (handle_JEQ r s) = PC s + 2
    \<and> advance_PC JEQ (handle_JEQ r s) = handle_JEQ r s"
proof -
  from assms(1) have "tick s =
      handle_JEQ (ram s (PC s + 1)) (interrupt_check s)"
    by (simp add: tick_eq ram_read_def dispatch_JEQ advance_PC_jumps)
  with assms(2) have cycle: "PC (tick s) = PC (interrupt_check s) + 2"
    by (simp add: handle_JEQ_def interrupt_check_FL)
  then have idle: "reg s IS = 0 \<longrightarrow> PC (tick s) = PC s + 2"
    by (simp add: interrupt_check_def)
  from assms(2) have "PC (handle_JEQ r s) = PC s + 2"
    by (simp add: handle_JEQ_def)
  with cycle idle show ?thesis
    by (simp add: advance_PC_jumps)
qed

theorem JEQ_not_taken_advances_PC_by_two_witness:
  "ram_read (ram jeq_example) (PC jeq_example) = JEQ
   \<and> FL jeq_example \<noteq> 1
   \<and> reg jeq_example IS = 0
   \<and> reg jeq_example (ram_read (ram jeq_example) (PC jeq_example + 1)) = 50
   \<and> PC jeq_example = 0
   \<and> PC (tick jeq_example) = 2"
proof -
  have fetched: "ram_read (ram jeq_example) (PC jeq_example) = JEQ"
    by (simp add: jeq_example_simps ram_read_def)
  have flags: "FL jeq_example \<noteq> 1"
    by (simp add: jeq_example_simps)
  have idle: "reg jeq_example IS = 0"
    by (simp add: jeq_example_simps IS_def)
  from JEQ_not_taken_advances_PC_by_two [OF fetched flags, of 0] fetched flags idle
  show ?thesis
    by (clarsimp simp: jeq_example_simps ram_read_def)
qed

section \<open>Addition and multiplication\<close>




end
